theory Spec2Isabelle
  imports Main "HOL-Library.Sublist"
begin

section \<open>Python values and the operations the scripts use on them\<close>

text \<open>
  A Python \<open>str\<close> is modelled as a \<open>string\<close> holding its UTF-8 bytes. A Python
  \<open>float\<close> is a finite binary fraction (mantissa and exponent) or one of the three
  special values that \<open>json.loads\<close> also produces.
\<close>

datatype pyfloat = Finite int int | PosInf | NegInf | NaN

text \<open>
  The values \<open>json.loads\<close> and \<open>response.json()\<close> return. \<open>JNull\<close> is Python's
  \<open>None\<close>. A \<open>dict\<close> is an association list read with \<open>map_of\<close>.
\<close>

datatype json =
    JNull
  | JBool bool
  | JInt int
  | JFloat pyfloat
  | JStr string
  | JArr "json list"
  | JObj "(string \<times> json) list"

text \<open>
  The exceptions of the two scripts, by the classes their \<open>except\<close> clauses tell apart.
  \<open>HTTPError\<close> (raised by \<open>raise_for_status\<close>) and \<open>RequestsJSONDecodeError\<close> are
  subclasses of \<open>requests.exceptions.RequestException\<close>; the latter (requests 2.27 and
  later) is a subclass of \<open>json.JSONDecodeError\<close> as well.
\<close>

datatype exn =
    RequestException string
  | HTTPError nat
  | RequestsJSONDecodeError string
  | JSONDecodeError string
  | TypeError
  | AttributeError
  | KeyError json
  | IndexError
  | StreamlitAPIException string
  | OtherException string

fun is_request_exception :: "exn \<Rightarrow> bool" where
  "is_request_exception (RequestException m) = True"
| "is_request_exception (HTTPError c) = True"
| "is_request_exception (RequestsJSONDecodeError m) = True"
| "is_request_exception e = False"

fun is_json_decode_error :: "exn \<Rightarrow> bool" where
  "is_json_decode_error (JSONDecodeError m) = True"
| "is_json_decode_error (RequestsJSONDecodeError m) = True"
| "is_json_decode_error e = False"

text \<open>Truth value of a Python object, as \<open>if x:\<close> and \<open>x and y\<close> test it.\<close>

fun float_truthy :: "pyfloat \<Rightarrow> bool" where
  "float_truthy (Finite m e) = (m \<noteq> 0)"
| "float_truthy f = True"

fun py_truthy :: "json \<Rightarrow> bool" where
  "py_truthy JNull = False"
| "py_truthy (JBool b) = b"
| "py_truthy (JInt i) = (i \<noteq> 0)"
| "py_truthy (JFloat f) = float_truthy f"
| "py_truthy (JStr s) = (s \<noteq> [])"
| "py_truthy (JArr xs) = (xs \<noteq> [])"
| "py_truthy (JObj kvs) = (kvs \<noteq> [])"

text \<open>Sequencing of computations that may raise.\<close>

fun exn_bind :: "exn + 'a \<Rightarrow> ('a \<Rightarrow> exn + 'b) \<Rightarrow> exn + 'b" where
  "exn_bind (Inl e) f = Inl e"
| "exn_bind (Inr x) f = f x"

fun map_exn :: "('a \<Rightarrow> exn + 'b) \<Rightarrow> 'a list \<Rightarrow> exn + 'b list" where
  "map_exn f [] = Inr []"
| "map_exn f (x # xs) =
     (case f x of
        Inl e \<Rightarrow> Inl e
      | Inr y \<Rightarrow> (case map_exn f xs of Inl e \<Rightarrow> Inl e | Inr ys \<Rightarrow> Inr (y # ys)))"

text \<open>\<open>x[k]\<close> with a string key \<open>k\<close>.\<close>

fun sub_key :: "string \<Rightarrow> json \<Rightarrow> exn + json" where
  "sub_key k (JObj kvs) =
     (case map_of kvs k of None \<Rightarrow> Inl (KeyError (JStr k)) | Some v \<Rightarrow> Inr v)"
| "sub_key k v = Inl TypeError"

text \<open>\<open>x[0]\<close>.\<close>

fun sub_zero :: "json \<Rightarrow> exn + json" where
  "sub_zero (JArr []) = Inl IndexError"
| "sub_zero (JArr (x # xs)) = Inr x"
| "sub_zero (JStr []) = Inl IndexError"
| "sub_zero (JStr (c # cs)) = Inr (JStr [c])"
| "sub_zero (JObj kvs) = Inl (KeyError (JInt 0))"
| "sub_zero v = Inl TypeError"

text \<open>\<open>x.get(k)\<close> and \<open>x.get(k, d)\<close>: only a \<open>dict\<close> has the method.\<close>

fun dot_get_default :: "string \<Rightarrow> json \<Rightarrow> json \<Rightarrow> exn + json" where
  "dot_get_default k d (JObj kvs) =
     (case map_of kvs k of None \<Rightarrow> Inr d | Some v \<Rightarrow> Inr v)"
| "dot_get_default k d v = Inl AttributeError"

definition dot_get :: "string \<Rightarrow> json \<Rightarrow> exn + json" where
  "dot_get k v = dot_get_default k JNull v"

text \<open>
  The items a \<open>for\<close> loop draws from a value: a list's elements, a string's characters,
  a dict's keys; anything else is not iterable.
\<close>

fun py_iter :: "json \<Rightarrow> exn + json list" where
  "py_iter (JArr xs) = Inr xs"
| "py_iter (JStr s) = Inr (map (\<lambda>c. JStr [c]) s)"
| "py_iter (JObj kvs) = Inr (map (\<lambda>kv. JStr (fst kv)) kvs)"
| "py_iter v = Inl TypeError"

text \<open>\<open>a and b\<close>: the first operand when it is falsy, otherwise the second.\<close>

fun py_and :: "exn + json \<Rightarrow> exn + json \<Rightarrow> exn + json" where
  "py_and (Inl e) b = Inl e"
| "py_and (Inr v) b = (if py_truthy v then b else Inr v)"

text \<open>\<open>str(n)\<close> of an integer: its decimal digits.\<close>

definition digit_char :: "nat \<Rightarrow> char" where
  "digit_char d = char_of (48 + d)"

function str_nat :: "nat \<Rightarrow> string" where
  "str_nat n = (if n < 10 then [digit_char n] else str_nat (n div 10) @ [digit_char (n mod 10)])"
  by pat_completeness auto
termination
  by (relation "measure (\<lambda>n. n)") auto

declare str_nat.simps [simp del]

definition str_int :: "int \<Rightarrow> string" where
  "str_int i = (if i < 0 then CHR ''-'' # str_nat (nat (- i)) else str_nat (nat i))"

section \<open>What the scripts show: Streamlit calls as events\<close>

datatype container = Main | Sidebar | Tab nat | Column nat | Form string

text \<open>
  One constructor per Streamlit call of the two scripts, with the arguments the call is
  given. An argument that is the text of a caught exception (\<open>{e}\<close> in an f-string) is
  kept as the exception itself, next to the literal part of the message.
\<close>

datatype elem =
    StSetPageConfig string string
  | StTitle string
  | StMarkdown string
  | StMarkdownValue json
  | StHeader string
  | StSubheader string
  | StTextArea string string
  | StTextInput string string
  | StSelectbox string "string list"
  | StRadio string "string list"
  | StSlider string int int int
  | StButton string
  | StFormSubmitButton string
  | StDownloadButton string string string string
  | StWarning string
  | StInfo string
  | StSuccess string
  | StSpinner string
  | StError string "exn option"
  | StWrite string
  | StCode string
  | StJson json
  | StTabs "json list"
  | StColumns nat
  | StCheckbox json bool string

type_synonym event = "container \<times> elem"

section \<open>The planner (meal.py)\<close>

subsection \<open>The request\<close>

text \<open>The \<open>responseSchema\<close> of the request: line 36 to 71.\<close>

datatype schema =
    SString
  | SArray schema
  | SObject "(string \<times> schema) list" "string list"

definition response_schema :: schema where
  "response_schema =
     SObject
       [(''weekly_meal_plan'',
           SArray (SObject
             [(''day'', SString),
              (''meals'',
                 SArray (SObject
                   [(''type'', SString),
                    (''recipe_name'', SString),
                    (''ingredients'', SArray SString),
                    (''instructions'', SString)]
                   [''type'', ''recipe_name'', ''ingredients'', ''instructions'']))]
             [''day'', ''meals''])),
        (''shopping_list'', SArray SString)]
       [''weekly_meal_plan'', ''shopping_list'']"

definition API_KEY :: string where
  "API_KEY = ''''"

definition api_url :: string where
  "api_url =
     ''https://generativelanguage.googleapis.com/v1beta/models/gemini-2.0-flash:generateContent?key=''
       @ API_KEY"

text \<open>The f-string of line 21 to 33.\<close>

definition build_prompt :: "string \<Rightarrow> string \<Rightarrow> int \<Rightarrow> string" where
  "build_prompt preferences goals num_meals_per_day =
     ''\<newline>    Create a detailed 7-day weekly meal plan, including breakfast, lunch, and dinner (if ''
     @ str_int num_meals_per_day
     @ '' is 3). Adjust meals based on the specified number of meals per day.\<newline>''
     @ ''    For each meal, include a recipe name, a list of ingredients, and cooking instructions.\<newline>''
     @ ''    Finally, provide a consolidated shopping list for the entire week's meal plan.\<newline>''
     @ ''\<newline>''
     @ ''    Dietary Preferences: '' @ preferences @ ''\<newline>''
     @ ''    Goals: '' @ goals @ ''\<newline>''
     @ ''    Number of meals per day: '' @ str_int num_meals_per_day @ ''\<newline>''
     @ ''\<newline>''
     @ ''    The output MUST be in JSON format, adhering strictly to the following structure.\<newline>''
     @ ''    Ensure all ingredients mentioned in recipes are included in the shopping_list.\<newline>''
     @ ''    Provide realistic, diverse, and well-balanced meals.\<newline>''
     @ ''    ''"

record request =
  req_url :: string
  req_content_type :: string
  req_prompt :: string
  req_response_mime_type :: string
  req_response_schema :: schema

definition build_request :: "string \<Rightarrow> request" where
  "build_request prompt =
     \<lparr>req_url = api_url,
      req_content_type = ''application/json'',
      req_prompt = prompt,
      req_response_mime_type = ''application/json'',
      req_response_schema = response_schema\<rparr>"

subsection \<open>The generation API and the libraries, as the script sees them\<close>

text \<open>
  A \<open>requests\<close> response: its status code, its body (\<open>response.text\<close>) and what
  \<open>response.json()\<close> does on it (returns a value or raises).
\<close>

record response =
  resp_status :: nat
  resp_text :: string
  resp_json :: "exn + json"

text \<open>
  What \<open>requests.post\<close> does: it returns a response or raises. What it raises is a
  \<open>RequestException\<close> or some other exception; a \<open>JSONDecodeError\<close> arises only
  from decoding, which \<open>post\<close> does not do.
\<close>

datatype post_outcome =
    PostRequestException string
  | PostOtherException string
  | PostReturns response

text \<open>
  The environment of the planner: the endpoint (which may answer the \<open>n\<close>-th call
  differently from the one before), \<open>json.loads\<close> on a \<open>str\<close>, and the built-in
  \<open>str()\<close> on a value that is not already a \<open>str\<close>.
\<close>

record planner_env =
  requests_post :: "nat \<Rightarrow> request \<Rightarrow> post_outcome"
  json_loads :: "string \<Rightarrow> exn + json"
  py_str :: "json \<Rightarrow> string"

record world =
  api_calls :: "request list"
  ui :: "event list"

definition emit :: "event list \<Rightarrow> world \<Rightarrow> world" where
  "emit evs w = w\<lparr>ui := ui w @ evs\<rparr>"

text \<open>\<open>response.raise_for_status()\<close>: an \<open>HTTPError\<close> for a 4xx or 5xx status.\<close>

definition raise_for_status :: "response \<Rightarrow> exn option" where
  "raise_for_status r =
     (if 400 \<le> resp_status r \<and> resp_status r < 600 then Some (HTTPError (resp_status r))
      else None)"

subsection \<open>generate_meal_plan\<close>

text \<open>The condition of line 101 and 102, operand by operand.\<close>

definition envelope_check :: "json \<Rightarrow> exn + json" where
  "envelope_check result =
     py_and (Inr result)
    (py_and (dot_get ''candidates'' result)
    (py_and (exn_bind (exn_bind (sub_key ''candidates'' result) sub_zero) (dot_get ''content''))
    (py_and (exn_bind (exn_bind (exn_bind (sub_key ''candidates'' result) sub_zero)
               (sub_key ''content'')) (dot_get ''parts''))
            (exn_bind (exn_bind (exn_bind (exn_bind (exn_bind (sub_key ''candidates'' result)
               sub_zero) (sub_key ''content'')) (sub_key ''parts'')) sub_zero)
               (dot_get ''text'')))))"

text \<open>\<open>result['candidates'][0]['content']['parts'][0]['text']\<close> of line 104.\<close>

definition envelope_text :: "json \<Rightarrow> exn + json" where
  "envelope_text result =
     exn_bind (exn_bind (exn_bind (exn_bind (exn_bind (sub_key ''candidates'' result)
       sub_zero) (sub_key ''content'')) (sub_key ''parts'')) sub_zero) (sub_key ''text'')"

text \<open>\<open>json.loads(json_string)\<close>: a value that is not a \<open>str\<close> is a \<open>TypeError\<close>.\<close>

fun loads_value :: "planner_env \<Rightarrow> json \<Rightarrow> exn + json" where
  "loads_value env (JStr s) = json_loads env s"
| "loads_value env v = Inl TypeError"

definition unexpected_format :: "json \<Rightarrow> event list" where
  "unexpected_format result =
     [(Main, StError ''Error: Unexpected response format from Gemini API.'' None),
      (Main, StJson result)]"

text \<open>
  The body of the \<open>try\<close>, from \<open>raise_for_status\<close> on: the exception it raises, or
  what it shows and returns.
\<close>

definition try_block :: "planner_env \<Rightarrow> response \<Rightarrow> exn + (event list \<times> json)" where
  "try_block env r =
     (case raise_for_status r of
        Some e \<Rightarrow> Inl e
      | None \<Rightarrow>
          exn_bind (resp_json r) (\<lambda>result.
          exn_bind (envelope_check result) (\<lambda>ok.
            if py_truthy ok then
              exn_bind (envelope_text result) (\<lambda>json_string.
              exn_bind (loads_value env json_string) (\<lambda>parsed_json.
                Inr ([], parsed_json)))
            else Inr (unexpected_format result, JNull))))"

text \<open>The three \<open>except\<close> clauses, in the order of the source.\<close>

definition on_request_exception :: "exn \<Rightarrow> event list" where
  "on_request_exception e = [(Main, StError ''Error connecting to Gemini API: '' (Some e))]"

definition on_json_decode_error :: "exn \<Rightarrow> response \<Rightarrow> event list" where
  "on_json_decode_error e r =
     [(Main, StError ''Error parsing JSON response from Gemini API: '' (Some e)),
      (Main, StWrite ''Raw API response content (might be malformed JSON):''),
      (Main, StCode (resp_text r))]"

definition on_exception :: "exn \<Rightarrow> event list" where
  "on_exception e = [(Main, StError ''An unexpected error occurred: '' (Some e))]"

definition except_clauses :: "exn \<Rightarrow> response \<Rightarrow> event list" where
  "except_clauses e r =
     (if is_request_exception e then on_request_exception e
      else if is_json_decode_error e then on_json_decode_error e r
      else on_exception e)"

text \<open>
  The function returns a Python value: the parsed JSON, or \<open>None\<close> (\<open>JNull\<close>) from
  the \<open>else\<close> branch and from every \<open>except\<close> clause. The call is logged in
  \<open>api_calls\<close>.
\<close>

definition generate_meal_plan ::
  "planner_env \<Rightarrow> string \<Rightarrow> string \<Rightarrow> int \<Rightarrow> world \<Rightarrow> json \<times> world" where
  "generate_meal_plan env preferences goals num_meals_per_day w =
     (let req = build_request (build_prompt preferences goals num_meals_per_day);
          w1 = w\<lparr>api_calls := api_calls w @ [req]\<rparr>
      in case requests_post env (length (api_calls w)) req of
           PostRequestException m \<Rightarrow> (JNull, emit (on_request_exception (RequestException m)) w1)
         | PostOtherException m \<Rightarrow> (JNull, emit (on_exception (OtherException m)) w1)
         | PostReturns r \<Rightarrow>
             (case try_block env r of
                Inl e \<Rightarrow> (JNull, emit (except_clauses e r) w1)
              | Inr (evs, v) \<Rightarrow> (v, emit evs w1)))"

subsection \<open>Rendering\<close>

text \<open>
  A stretch of script: the events it shows, and the exception that ended it, if one did.
  Nothing catches an exception here; it ends the run.
\<close>

type_synonym script = "event list \<times> exn option"

definition display :: "container \<Rightarrow> elem \<Rightarrow> script" where
  "display c e = ([(c, e)], None)"

fun seq :: "script \<Rightarrow> script \<Rightarrow> script" where
  "seq (evs, Some e) s = (evs, Some e)"
| "seq (evs, None) (evs', r) = (evs @ evs', r)"

fun eval_then :: "exn + 'a \<Rightarrow> ('a \<Rightarrow> script) \<Rightarrow> script" where
  "eval_then (Inl e) f = ([], Some e)"
| "eval_then (Inr x) f = f x"

fun for_each :: "('a \<Rightarrow> script) \<Rightarrow> 'a list \<Rightarrow> script" where
  "for_each f [] = ([], None)"
| "for_each f (x # xs) = seq (f x) (for_each f xs)"

text \<open>A value interpolated in an f-string.\<close>

fun fmt :: "planner_env \<Rightarrow> json \<Rightarrow> string" where
  "fmt env (JStr s) = s"
| "fmt env v = py_str env v"

fun is_str :: "json \<Rightarrow> bool" where
  "is_str (JStr s) = True"
| "is_str v = False"

text \<open>\<open>st.tabs\<close> refuses an empty list of labels and a label that is not a \<open>str\<close>.\<close>

definition st_tabs :: "json list \<Rightarrow> script" where
  "st_tabs labels =
     (if labels = [] then
        ([], Some (StreamlitAPIException
                     ''The input argument to st.tabs must contain at least one tab label.''))
      else if \<not> list_all is_str labels then
        ([], Some (StreamlitAPIException
                     ''The tabs input list to st.tabs is only allowed to contain strings.''))
      else display Main (StTabs labels))"

text \<open>Line 177 to 183, in container \<open>c\<close>.\<close>

definition render_meal :: "planner_env \<Rightarrow> container \<Rightarrow> json \<Rightarrow> script" where
  "render_meal env c meal =
     eval_then (sub_key ''type'' meal) (\<lambda>ty.
     eval_then (sub_key ''recipe_name'' meal) (\<lambda>recipe_name.
       seq (display c (StMarkdown (''**'' @ fmt env ty @ '':** '' @ fmt env recipe_name)))
      (seq (display c (StMarkdown ''**Ingredients:**''))
      (seq (eval_then (exn_bind (sub_key ''ingredients'' meal) py_iter)
              (for_each (\<lambda>ingredient. display c (StWrite (''- '' @ fmt env ingredient)))))
      (seq (display c (StMarkdown ''**Instructions:**''))
      (seq (eval_then (sub_key ''instructions'' meal) (\<lambda>i. display c (StMarkdownValue i)))
           (display c (StMarkdown ''---''))))))))"

text \<open>Line 173 to 185: the body of the loop over the days, for the pair of \<open>enumerate\<close>.\<close>

definition render_day :: "planner_env \<Rightarrow> nat \<times> json \<Rightarrow> script" where
  "render_day env p =
     (case p of (i, day_data) \<Rightarrow>
        eval_then (sub_key ''day'' day_data) (\<lambda>day.
          seq (display (Tab i) (StSubheader (''___'' @ fmt env day @ ''___'')))
              (eval_then (sub_key ''meals'' day_data) (\<lambda>meals.
                 if py_truthy meals then
                   eval_then (exn_bind (sub_key ''meals'' day_data) py_iter)
                     (for_each (render_meal env (Tab i)))
                 else display (Tab i) (StWrite ''No meals planned for this day.'')))))"

definition render_item :: "nat \<times> json \<Rightarrow> script" where
  "render_item p =
     (case p of (idx, item) \<Rightarrow>
        display (Column (idx mod 3)) (StCheckbox item False (''item_'' @ str_nat idx)))"

text \<open>Line 188 to 195.\<close>

definition render_shopping_list :: "json \<Rightarrow> script" where
  "render_shopping_list meal_plan_data =
     seq (display Main (StHeader (''Shopping List '' @ [CHR 0xF0, CHR 0x9F, CHR 0x9B, CHR 0x92])))
         (eval_then (dot_get_default ''shopping_list'' (JArr []) meal_plan_data) (\<lambda>shopping_list.
            if py_truthy shopping_list then
              seq (display Main (StColumns 3))
                  (eval_then (py_iter shopping_list) (\<lambda>items.
                     for_each render_item (enumerate 0 items)))
            else display Main (StWrite ''No shopping list generated.'')))"

text \<open>Line 165 to 185.\<close>

definition render_weekly_plan :: "planner_env \<Rightarrow> json \<Rightarrow> script" where
  "render_weekly_plan env meal_plan_data =
     seq (display Main (StSuccess ''Meal Plan Generated Successfully!''))
    (seq (display Main (StHeader (''Weekly Meal Plan ''
            @ [CHR 0xF0, CHR 0x9F, CHR 0x97, CHR 0x93, CHR 0xEF, CHR 0xB8, CHR 0x8F])))
    (seq (eval_then (exn_bind (exn_bind (sub_key ''weekly_meal_plan'' meal_plan_data) py_iter)
                       (map_exn (sub_key ''day'')))
            st_tabs)
         (eval_then (exn_bind (sub_key ''weekly_meal_plan'' meal_plan_data) py_iter)
            (\<lambda>days. for_each (render_day env) (enumerate 0 days)))))"

definition render_plan :: "planner_env \<Rightarrow> json \<Rightarrow> script" where
  "render_plan env meal_plan_data =
     seq (render_weekly_plan env meal_plan_data) (render_shopping_list meal_plan_data)"

subsection \<open>The script\<close>

record planner_inputs =
  dietary_preferences :: string
  health_goals :: string
  num_meals :: int
  generate_button :: bool

text \<open>Line 125 to 151: the page and the widgets of the sidebar.\<close>

definition planner_page :: "event list" where
  "planner_page =
     [(Main, StSetPageConfig
         ([CHR 0xF0, CHR 0x9F, CHR 0x8D, CHR 0xBD, CHR 0xEF, CHR 0xB8, CHR 0x8F]
            @ '' AI Meal Plan Generator'') ''wide''),
      (Main, StTitle
         ([CHR 0xF0, CHR 0x9F, CHR 0x8D, CHR 0xBD, CHR 0xEF, CHR 0xB8, CHR 0x8F]
            @ '' AI Weekly Meal Plan Generator'')),
      (Main, StMarkdown ''Enter your dietary preferences and health goals to get a personalized weekly meal plan and shopping list!''),
      (Sidebar, StHeader ''Your Preferences''),
      (Sidebar, StTextArea
         ''Dietary Preferences (e.g., Vegan, Keto, Gluten-Free, allergies like peanuts)''
         ''Vegetarian, no dairy, low carb''),
      (Sidebar, StSelectbox ''Health Goals''
         [''Weight Loss'', ''Muscle Gain'', ''Maintenance'', ''General Healthy Eating'']),
      (Sidebar, StSlider ''Meals per day'' 1 3 3),
      (Sidebar, StButton ''Generate Meal Plan''),
      (Main, StMarkdown ''---'')]"

text \<open>
  One run of the script, line 125 to 195: the world after it, and the exception that
  ended it, if one did.
\<close>

definition meal_main :: "planner_env \<Rightarrow> planner_inputs \<Rightarrow> world \<Rightarrow> world \<times> exn option" where
  "meal_main env inp w =
     (let w1 = emit planner_page w in
      if generate_button inp then
        if dietary_preferences inp = [] then
          (emit [(Main, StWarning ''Please enter your dietary preferences.'')] w1, None)
        else
          (let w2 = emit [(Main, StInfo ''Generating your personalized meal plan... This might take a moment!''),
                          (Main, StSpinner ''Crafting your delicious weekly plan...'')] w1
           in case generate_meal_plan env (dietary_preferences inp) (health_goals inp)
                     (num_meals inp) w2 of
                (meal_plan_data, w3) \<Rightarrow>
                  if py_truthy meal_plan_data then
                    (case render_plan env meal_plan_data of (evs, r) \<Rightarrow> (emit evs w3, r))
                  else (w3, None))
      else (w1, None))"

section \<open>The responder (reply.py)\<close>

subsection \<open>\<open>str.strip()\<close> and \<open>str.split\<close> at line ends\<close>

text \<open>
  The characters \<open>str.strip()\<close> removes, each as its UTF-8 bytes: U+0009 to U+000D,
  U+001C to U+0020, U+0085, U+00A0, U+1680, U+2000 to U+200A, U+2028, U+2029, U+202F,
  U+205F and U+3000.
\<close>

definition py_whitespace :: "string list" where
  "py_whitespace =
     [[CHR 0x09],
      [CHR 0x0A],
      [CHR 0x0B],
      [CHR 0x0C],
      [CHR 0x0D],
      [CHR 0x1C],
      [CHR 0x1D],
      [CHR 0x1E],
      [CHR 0x1F],
      [CHR 0x20],
      [CHR 0xC2, CHR 0x85],
      [CHR 0xC2, CHR 0xA0],
      [CHR 0xE1, CHR 0x9A, CHR 0x80],
      [CHR 0xE2, CHR 0x80, CHR 0x80],
      [CHR 0xE2, CHR 0x80, CHR 0x81],
      [CHR 0xE2, CHR 0x80, CHR 0x82],
      [CHR 0xE2, CHR 0x80, CHR 0x83],
      [CHR 0xE2, CHR 0x80, CHR 0x84],
      [CHR 0xE2, CHR 0x80, CHR 0x85],
      [CHR 0xE2, CHR 0x80, CHR 0x86],
      [CHR 0xE2, CHR 0x80, CHR 0x87],
      [CHR 0xE2, CHR 0x80, CHR 0x88],
      [CHR 0xE2, CHR 0x80, CHR 0x89],
      [CHR 0xE2, CHR 0x80, CHR 0x8A],
      [CHR 0xE2, CHR 0x80, CHR 0xA8],
      [CHR 0xE2, CHR 0x80, CHR 0xA9],
      [CHR 0xE2, CHR 0x80, CHR 0xAF],
      [CHR 0xE2, CHR 0x81, CHR 0x9F],
      [CHR 0xE3, CHR 0x80, CHR 0x80]]"

function strip_front :: "string list \<Rightarrow> string \<Rightarrow> string" where
  "strip_front ws s =
     (case find (\<lambda>w. w \<noteq> [] \<and> prefix w s) ws of
        None \<Rightarrow> s
      | Some w \<Rightarrow> strip_front ws (drop (length w) s))"
  by pat_completeness auto
termination
  by (relation "measure (\<lambda>p. length (snd p))") (auto simp: find_Some_iff prefix_def)

declare strip_front.simps [simp del]

definition py_strip :: "string \<Rightarrow> string" where
  "py_strip s = rev (strip_front (map rev py_whitespace) (rev (strip_front py_whitespace s)))"

fun split_nl :: "string \<Rightarrow> string list" where
  "split_nl [] = [[]]"
| "split_nl (c # cs) =
     (if c = CHR 0x0A then [] # split_nl cs
      else (case split_nl cs of [] \<Rightarrow> [[c]] | l # ls \<Rightarrow> (c # l) # ls))"

subsection \<open>The environment and the state\<close>

text \<open>
  The arguments of \<open>generate_email\<close>, in the order of its parameters:
  \<open>applicant_text\<close>, \<open>tone\<close>, \<open>format_type\<close>, \<open>name\<close>, \<open>role\<close>, \<open>company\<close>.
\<close>

type_synonym email_args = "string \<times> string \<times> string \<times> string \<times> string \<times> string"

text \<open>
  \<open>generate_content\<close> is \<open>model.generate_content(prompt)\<close> followed by the read of
  \<open>response.text\<close>: the text, or the exception either of them raises; the \<open>n\<close>-th call
  may answer differently from the one before. \<open>write_pdf\<close> is the FPDF calls of
  \<open>create_pdf\<close> on the lines of the content: the exception they raise, if any.
\<close>

record responder_env =
  generate_content :: "nat \<Rightarrow> string \<Rightarrow> exn + string"
  write_pdf :: "string list \<Rightarrow> exn option"

text \<open>
  \<open>email_content\<close> is the entry of \<open>st.session_state\<close> (\<open>None\<close> while the key is
  absent), \<open>cache\<close> the store of \<open>st.cache_data\<close> for \<open>generate_email\<close>, \<open>gen_calls\<close>
  the prompts sent to the generation API so far.
\<close>

record session =
  email_content :: "string option"
  cache :: "email_args \<Rightarrow> string option"
  gen_calls :: "string list"
  shown :: "event list"

definition emit_r :: "event list \<Rightarrow> session \<Rightarrow> session" where
  "emit_r evs s = s\<lparr>shown := shown s @ evs\<rparr>"

subsection \<open>generate_email and create_pdf\<close>

text \<open>The f-string of line 14 to 23.\<close>

definition email_prompt :: "email_args \<Rightarrow> string" where
  "email_prompt args =
     (case args of (applicant_text, tone, format_type, name, role, company) \<Rightarrow>
        ''\<newline>    You are an HR manager. Write an email response to a job applicant.\<newline>''
        @ ''    Applicant Name: '' @ name @ ''\<newline>''
        @ ''    Role Applied For: '' @ role @ ''\<newline>''
        @ ''    Company: '' @ company @ ''\<newline>''
        @ ''    Email Format: '' @ format_type @ ''\<newline>''
        @ ''    Tone: '' @ tone @ ''\<newline>''
        @ ''    Applicant Message: '' @ applicant_text @ ''\<newline>''
        @ ''    Please generate a professional email response.\<newline>''
        @ ''    '')"

text \<open>The body of \<open>generate_email\<close>, line 14 to 25: one call of the generation API.\<close>

definition generate_email_body ::
  "responder_env \<Rightarrow> email_args \<Rightarrow> session \<Rightarrow> (exn + string) \<times> session" where
  "generate_email_body env args s =
     (let prompt = email_prompt args;
          s1 = s\<lparr>gen_calls := gen_calls s @ [prompt]\<rparr>
      in case generate_content env (length (gen_calls s)) prompt of
           Inl e \<Rightarrow> (Inl e, s1)
         | Inr txt \<Rightarrow> (Inr (py_strip txt), s1))"

text \<open>
  \<open>generate_email\<close> under \<open>@st.cache_data\<close>: a stored result for the same arguments is
  returned without running the body; a result the body returns is stored; an exception
  is not.
\<close>

definition generate_email ::
  "responder_env \<Rightarrow> email_args \<Rightarrow> session \<Rightarrow> (exn + string) \<times> session" where
  "generate_email env args s =
     (case cache s args of
        Some v \<Rightarrow> (Inr v, s)
      | None \<Rightarrow>
          (case generate_email_body env args s of
             (Inl e, s1) \<Rightarrow> (Inl e, s1)
           | (Inr v, s1) \<Rightarrow> (Inr v, s1\<lparr>cache := (cache s1)(args \<mapsto> v)\<rparr>)))"

definition create_pdf :: "responder_env \<Rightarrow> string \<Rightarrow> exn + string" where
  "create_pdf env content =
     (case write_pdf env (split_nl content) of
        Some e \<Rightarrow> Inl e
      | None \<Rightarrow> Inr ''/tmp/generated_email.pdf'')"

subsection \<open>The script\<close>

record responder_inputs =
  name :: string
  role :: string
  company :: string
  applicant_text :: string
  format_type :: string
  tone :: string
  submitted :: bool
  regenerate :: bool

text \<open>Line 40 to 54: the page and the form.\<close>

definition responder_page :: "event list" where
  "responder_page =
     [(Main, StSetPageConfig ''HR Email Generator'' ''centered''),
      (Main, StTitle ([CHR 0xF0, CHR 0x9F, CHR 0x93, CHR 0xA9] @ '' HR Email Reply Generator'')),
      (Form ''email_form'', StWrite ''### Applicant Details''),
      (Form ''email_form'', StTextInput ''Applicant's Name'' ''John Doe''),
      (Form ''email_form'', StTextInput ''Role Applied For'' ''Software Engineer''),
      (Form ''email_form'', StTextInput ''Company Name'' ''Acme Corp''),
      (Form ''email_form'', StTextArea ''Paste Applicant's Message'' []),
      (Form ''email_form'', StWrite ''### Email Preferences''),
      (Form ''email_form'', StSelectbox ''Select Email Format''
         [''Acknowledgement'', ''Rejection'', ''Interview Invitation'',
          ''Further Information Request'']),
      (Form ''email_form'', StRadio ''Select Tone'' [''Formal'', ''Friendly'', ''Encouraging'']),
      (Form ''email_form'', StFormSubmitButton ''Generate Email'')]"

text \<open>Line 57 and 58.\<close>

definition init_session :: "session \<Rightarrow> session" where
  "init_session s =
     (case email_content s of None \<Rightarrow> s\<lparr>email_content := Some []\<rparr> | Some c \<Rightarrow> s)"

text \<open>Line 61 to 67: the handler of the form's submit button.\<close>

definition submit_handler ::
  "responder_env \<Rightarrow> responder_inputs \<Rightarrow> session \<Rightarrow> session \<times> exn option" where
  "submit_handler env inp s =
     (if submitted inp then
        if py_strip (applicant_text inp) = [] then
          (emit_r [(Main, StError ''Please paste the applicant's message.'' None)] s, None)
        else
          (case generate_email env
                  (applicant_text inp, tone inp, format_type inp, name inp, role inp, company inp)
                  (emit_r [(Main, StSpinner ''Generating email...'')] s) of
             (Inl e, s1) \<Rightarrow> (s1, Some e)
           | (Inr email, s1) \<Rightarrow> (s1\<lparr>email_content := Some email\<rparr>, None))
      else (s, None))"

definition placeholder :: string where
  "placeholder = ''Thank you for your application.''"

definition regenerate_label :: string where
  "regenerate_label =
     [CHR 0xF0, CHR 0x9F, CHR 0x94, CHR 0x81] @ '' Regenerate Email with New Format/Tone''"

text \<open>Line 86 and 87: the regenerate button and its handler.\<close>

definition regenerate_handler :: "responder_inputs \<Rightarrow> session \<Rightarrow> session" where
  "regenerate_handler inp s =
     (let s1 = emit_r [(Main, StButton regenerate_label)] s in
      if regenerate inp then s1\<lparr>email_content := Some placeholder\<rparr> else s1)"

text \<open>Line 70 to 87: the draft, its download as a PDF, and the regenerate button.\<close>

definition display_email ::
  "responder_env \<Rightarrow> responder_inputs \<Rightarrow> session \<Rightarrow> session \<times> exn option" where
  "display_email env inp s =
     (case email_content s of
        None \<Rightarrow> (s, Some AttributeError)
      | Some content \<Rightarrow>
          if content \<noteq> [] then
            (let s1 = emit_r
                   [(Main, StWrite ''---''),
                    (Main, StSubheader
                       ([CHR 0xF0, CHR 0x9F, CHR 0x93, CHR 0xA7] @ '' Generated Email'')),
                    (Main, StTextArea ''Email Response'' content)] s
             in case create_pdf env content of
                  Inl e \<Rightarrow> (s1, Some e)
                | Inr pdf_file_path \<Rightarrow>
                    (regenerate_handler inp
                       (emit_r [(Main, StDownloadButton
                                   ([CHR 0xF0, CHR 0x9F, CHR 0x93, CHR 0xA5]
                                      @ '' Download Email as PDF'')
                                   pdf_file_path ''HR_Email_Response.pdf''
                                   ''application/pdf'')] s1),
                     None))
          else (s, None))"

text \<open>One run of the script, line 40 to 87.\<close>

definition reply_main ::
  "responder_env \<Rightarrow> responder_inputs \<Rightarrow> session \<Rightarrow> session \<times> exn option" where
  "reply_main env inp s =
     (case submit_handler env inp (init_session (emit_r responder_page s)) of
        (s1, Some e) \<Rightarrow> (s1, Some e)
      | (s1, None) \<Rightarrow> display_email env inp s1)"

section \<open>Notions the properties are stated with\<close>

text \<open>
  A value conforms to a schema when it has the schema's type, every required property of
  an object is present, and every property the schema describes conforms in turn.
\<close>

fun conforms :: "schema \<Rightarrow> json \<Rightarrow> bool" where
  "conforms SString (JStr s) = True"
| "conforms (SArray sc) (JArr xs) = list_all (conforms sc) xs"
| "conforms (SObject props req) (JObj kvs) =
     (list_all (\<lambda>k. map_of kvs k \<noteq> None) req
      \<and> list_all (\<lambda>p. case map_of kvs (fst p) of
                          None \<Rightarrow> True
                        | Some v \<Rightarrow> conforms (snd p) v) props)"
| "conforms sc v = False"

text \<open>The two inner object schemas of \<open>response_schema\<close>, and the label of a day entry.\<close>

definition meal_schema :: schema where
  "meal_schema =
     SObject
       [(''type'', SString),
        (''recipe_name'', SString),
        (''ingredients'', SArray SString),
        (''instructions'', SString)]
       [''type'', ''recipe_name'', ''ingredients'', ''instructions'']"

definition day_schema :: schema where
  "day_schema = SObject [(''day'', SString), (''meals'', SArray meal_schema)] [''day'', ''meals'']"

definition day_name :: "json \<Rightarrow> string" where
  "day_name d = (case sub_key ''day'' d of Inr (JStr l) \<Rightarrow> l | _ \<Rightarrow> [])"

text \<open>
  The day sections of a page: the sub-headers shown inside a tab, each with the index of
  its tab. The shopping list of a page: the labels of its checkboxes.
\<close>

definition day_sections :: "event list \<Rightarrow> (nat \<times> string) list" where
  "day_sections evs =
     concat (map (\<lambda>ev. case ev of (Tab i, StSubheader t) \<Rightarrow> [(i, t)] | _ \<Rightarrow> []) evs)"

definition checkbox_labels :: "event list \<Rightarrow> json list" where
  "checkbox_labels evs =
     concat (map (\<lambda>ev. case ev of (c, StCheckbox l v k) \<Rightarrow> [l] | _ \<Rightarrow> []) evs)"

section \<open>Example responses\<close>

text \<open>The envelope of a Gemini answer whose single part has the text \<open>s\<close>.\<close>

definition gemini_envelope :: "string \<Rightarrow> json" where
  "gemini_envelope s =
     JObj [(''candidates'',
            JArr [JObj [(''content'',
                         JObj [(''parts'', JArr [JObj [(''text'', JStr s)]]),
                               (''role'', JStr ''model'')])]])]"

definition ok_response :: "string \<Rightarrow> string \<Rightarrow> response" where
  "ok_response body s = \<lparr>resp_status = 200, resp_text = body, resp_json = Inr (gemini_envelope s)\<rparr>"

text \<open>
  An endpoint that answers every call with \<open>ok_response body s\<close>, and a \<open>json.loads\<close>
  that reads \<open>s\<close> as \<open>v\<close> and rejects every other text.
\<close>

definition fixed_env :: "string \<Rightarrow> string \<Rightarrow> exn + json \<Rightarrow> planner_env" where
  "fixed_env body s v =
     \<lparr>requests_post = (\<lambda>n req. PostReturns (ok_response body s)),
      json_loads = (\<lambda>t. if t = s then v else Inl (JSONDecodeError ''Expecting value'')),
      py_str = (\<lambda>v. ''<object>'')\<rparr>"

text \<open>An endpoint that cannot be reached.\<close>

definition unreachable_env :: planner_env where
  "unreachable_env =
     \<lparr>requests_post = (\<lambda>n req. PostRequestException ''Connection refused''),
      json_loads = (\<lambda>t. Inl (JSONDecodeError ''Expecting value'')),
      py_str = (\<lambda>v. ''<object>'')\<rparr>"

definition porridge :: json where
  "porridge =
     JObj [(''type'', JStr ''Breakfast''),
           (''recipe_name'', JStr ''Porridge''),
           (''ingredients'', JArr [JStr ''oats'', JStr ''water'']),
           (''instructions'', JStr ''Boil the oats.'')]"

definition plan_day :: "string \<Rightarrow> json list \<Rightarrow> json" where
  "plan_day d ms = JObj [(''day'', JStr d), (''meals'', JArr ms)]"

definition week_plan :: json where
  "week_plan =
     JObj [(''weekly_meal_plan'',
            JArr [plan_day ''Monday'' [porridge], plan_day ''Tuesday'' [],
                  plan_day ''Wednesday'' [porridge], plan_day ''Thursday'' [],
                  plan_day ''Friday'' [], plan_day ''Saturday'' [porridge],
                  plan_day ''Sunday'' []]),
           (''shopping_list'', JArr [JStr ''oats'', JStr ''water''])]"

text \<open>A plan whose shopping list names an ingredient twice.\<close>

definition repeated_plan :: json where
  "repeated_plan =
     JObj [(''weekly_meal_plan'', JArr [plan_day ''Monday'' []]),
           (''shopping_list'', JArr [JStr ''egg'', JStr ''egg''])]"

text \<open>A plan whose only day has no \<open>meals\<close> entry, and one that has no shopping list.\<close>

definition plan_without_meals :: json where
  "plan_without_meals =
     JObj [(''weekly_meal_plan'', JArr [JObj [(''day'', JStr ''Monday'')]]),
           (''shopping_list'', JArr [])]"

definition plan_without_shopping_list :: json where
  "plan_without_shopping_list =
     JObj [(''weekly_meal_plan'', JArr [plan_day ''Monday'' []])]"

definition pressed :: "string \<Rightarrow> planner_inputs" where
  "pressed preferences =
     \<lparr>dietary_preferences = preferences, health_goals = ''Weight Loss'', num_meals = 2,
      generate_button = True\<rparr>"

definition fresh :: world where
  "fresh = \<lparr>api_calls = [], ui = []\<rparr>"

text \<open>
  For the responder: an endpoint whose \<open>n\<close>-th answer is the draft \<open>str(n)\<close>, a PDF
  writer that never fails, a submitted form, and a session before its first run.
\<close>

definition numbering_env :: responder_env where
  "numbering_env =
     \<lparr>generate_content = (\<lambda>n prompt. Inr (''  Draft '' @ str_nat n @ ''\<newline>'')),
      write_pdf = (\<lambda>ls. None)\<rparr>"

definition form :: "string \<Rightarrow> bool \<Rightarrow> bool \<Rightarrow> responder_inputs" where
  "form message sub regen =
     \<lparr>name = ''John Doe'', role = ''Software Engineer'', company = ''Acme Corp'',
      applicant_text = message, format_type = ''Acknowledgement'', tone = ''Formal'',
      submitted = sub, regenerate = regen\<rparr>"

definition new_session :: session where
  "new_session = \<lparr>email_content = None, cache = (\<lambda>a. None), gen_calls = [], shown = []\<rparr>"

section \<open>Properties\<close>

subsection \<open>Facts about the two scripts\<close>

lemma sublist_build_prompt_preferences: "sublist preferences (build_prompt preferences goals n)"
  unfolding build_prompt_def sublist_def by (metis append.assoc)

lemma sublist_build_prompt_goals: "sublist goals (build_prompt preferences goals n)"
  unfolding build_prompt_def sublist_def by (metis append.assoc)

lemma sublist_build_prompt_num: "sublist (str_int n) (build_prompt preferences goals n)"
  unfolding build_prompt_def sublist_def by blast

lemma str_int_2: "str_int 2 = ''2''"
  by code_simp

lemma api_calls_emit: "api_calls (emit evs w) = api_calls w"
  by (simp add: emit_def)

lemma ui_emit: "ui (emit evs w) = ui w @ evs"
  by (simp add: emit_def)

lemma generate_meal_plan_api_calls:
  "api_calls (snd (generate_meal_plan env preferences goals n w)) =
     api_calls w @ [build_request (build_prompt preferences goals n)]"
  by (simp add: generate_meal_plan_def Let_def emit_def split: post_outcome.splits sum.splits prod.splits)

lemma generate_meal_plan_ui_prefix:
  "prefix (ui w) (ui (snd (generate_meal_plan env preferences goals n w)))"
  by (simp add: generate_meal_plan_def Let_def emit_def split: post_outcome.splits sum.splits prod.splits)

lemma meal_main_api_calls:
  assumes "generate_button inp" and "dietary_preferences inp \<noteq> []"
  shows "api_calls (fst (meal_main env inp w)) =
       api_calls w @ [build_request (build_prompt (dietary_preferences inp) (health_goals inp) (num_meals inp))]"
proof -
  let ?w2 = "emit [(Main, StInfo ''Generating your personalized meal plan... This might take a moment!''),
                (Main, StSpinner ''Crafting your delicious weekly plan...'')] (emit planner_page w)"
  obtain d w3 where g: "generate_meal_plan env (dietary_preferences inp) (health_goals inp) (num_meals inp) ?w2 = (d, w3)"
    by (cases "generate_meal_plan env (dietary_preferences inp) (health_goals inp) (num_meals inp) ?w2")
  have "api_calls w3 = api_calls ?w2 @ [build_request (build_prompt (dietary_preferences inp) (health_goals inp) (num_meals inp))]"
    using generate_meal_plan_api_calls [of env "dietary_preferences inp" "health_goals inp" "num_meals inp" ?w2] g
    by simp
  then show ?thesis
    using assms g by (simp add: meal_main_def Let_def api_calls_emit split: prod.splits)
qed

lemma meal_main_ui_prefix:
  "generate_button inp \<Longrightarrow> dietary_preferences inp \<noteq> [] \<Longrightarrow>
     prefix (ui w @ planner_page @
               [(Main, StInfo ''Generating your personalized meal plan... This might take a moment!''),
                (Main, StSpinner ''Crafting your delicious weekly plan...'')])
            (ui (fst (meal_main env inp w)))"
proof -
  assume a: "generate_button inp" "dietary_preferences inp \<noteq> []"
  let ?w2 = "emit [(Main, StInfo ''Generating your personalized meal plan... This might take a moment!''),
                (Main, StSpinner ''Crafting your delicious weekly plan...'')] (emit planner_page w)"
  obtain d w3 where g: "generate_meal_plan env (dietary_preferences inp) (health_goals inp) (num_meals inp) ?w2 = (d, w3)"
    by (cases "generate_meal_plan env (dietary_preferences inp) (health_goals inp) (num_meals inp) ?w2")
  have "prefix (ui ?w2) (ui w3)"
    using generate_meal_plan_ui_prefix [of ?w2 env "dietary_preferences inp" "health_goals inp" "num_meals inp"] g
    by simp
  then obtain more where "ui w3 = ui ?w2 @ more"
    by (auto simp: prefix_def)
  then show ?thesis
    using a g by (simp add: meal_main_def Let_def ui_emit split: prod.splits)
qed

lemma gen_calls_emit_r: "gen_calls (emit_r evs s) = gen_calls s"
  by (simp add: emit_r_def)

lemma gen_calls_init_session: "gen_calls (init_session s) = gen_calls s"
  by (simp add: init_session_def split: option.splits)

lemma gen_calls_display_email: "gen_calls (fst (display_email env inp s)) = gen_calls s"
  by (simp add: display_email_def regenerate_handler_def Let_def emit_r_def
      split: option.splits sum.splits)

lemma reply_main_blank_gen_calls:
  "py_strip (applicant_text inp) = [] \<Longrightarrow> gen_calls (fst (reply_main env inp s)) = gen_calls s"
  by (simp add: reply_main_def submit_handler_def gen_calls_display_email gen_calls_emit_r
      gen_calls_init_session split: prod.splits option.splits)

lemma shown_display_email_prefix: "prefix (shown s) (shown (fst (display_email env inp s)))"
  by (simp add: display_email_def regenerate_handler_def Let_def emit_r_def
      split: option.splits sum.splits)

lemma shown_init_session: "shown (init_session s) = shown s"
  by (simp add: init_session_def split: option.splits)

lemma reply_main_blank_shown:
  assumes "py_strip (applicant_text inp) = []" "submitted inp"
  shows "prefix (shown s @ responder_page @ [(Main, StError ''Please paste the applicant's message.'' None)])
            (shown (fst (reply_main env inp s)))"
proof -
  let ?s1 = "emit_r [(Main, StError ''Please paste the applicant's message.'' None)]
               (init_session (emit_r responder_page s))"
  have "shown ?s1 = shown s @ responder_page @ [(Main, StError ''Please paste the applicant's message.'' None)]"
    by (simp add: emit_r_def shown_init_session)
  moreover have "fst (reply_main env inp s) = fst (display_email env inp ?s1)"
    using assms by (simp add: reply_main_def submit_handler_def)
  ultimately show ?thesis
    using shown_display_email_prefix [of ?s1 env inp] by simp
qed

subsection \<open>The prompt\<close>

text \<open>
  C7. For the inputs \<open>preferences = "Vegan"\<close>, \<open>goal = "Weight Loss"\<close> and
  \<open>meals = 2\<close>, the prompt built by \<open>generate_meal_plan\<close> contains "Vegan",
  "Weight Loss" and "2"; for all inputs the prompt contains the preferences, the goal and
  the decimal form of the number of meals, and this prompt is the one sent to the API.
\<close>

theorem prompt_interpolates_inputs:
  "sublist ''Vegan'' (build_prompt ''Vegan'' ''Weight Loss'' 2)
   \<and> sublist ''Weight Loss'' (build_prompt ''Vegan'' ''Weight Loss'' 2)
   \<and> sublist ''2'' (build_prompt ''Vegan'' ''Weight Loss'' 2)
   \<and> (\<forall>preferences goals n.
         sublist preferences (build_prompt preferences goals n)
         \<and> sublist goals (build_prompt preferences goals n)
         \<and> sublist (str_int n) (build_prompt preferences goals n))
   \<and> (\<forall>env preferences goals n w.
         map req_prompt (api_calls (snd (generate_meal_plan env preferences goals n w)))
           = map req_prompt (api_calls w) @ [build_prompt preferences goals n])"
  using sublist_build_prompt_num [of 2 "''Vegan''" "''Weight Loss''"]
  by (simp add: sublist_build_prompt_preferences sublist_build_prompt_goals
      sublist_build_prompt_num generate_meal_plan_api_calls build_request_def str_int_2)

subsection \<open>Input validation\<close>

text \<open>
  C1. When the required free-text field is empty (the planner's dietary preferences, or
  the responder's applicant message once stripped of white space), a run of the script
  makes no call to the generation API, and a run started by the button shows the
  validation message instead.
\<close>

theorem empty_field_makes_no_api_call:
  "(dietary_preferences pinp = [] \<longrightarrow>
      api_calls (fst (meal_main penv pinp w)) = api_calls w
      \<and> snd (meal_main penv pinp w) = None
      \<and> (generate_button pinp \<longrightarrow>
           ui (fst (meal_main penv pinp w))
             = ui w @ planner_page @ [(Main, StWarning ''Please enter your dietary preferences.'')]))
   \<and> (py_strip (applicant_text rinp) = [] \<longrightarrow>
        gen_calls (fst (reply_main renv rinp s)) = gen_calls s
        \<and> (submitted rinp \<longrightarrow>
             prefix (shown s @ responder_page
                       @ [(Main, StError ''Please paste the applicant's message.'' None)])
                    (shown (fst (reply_main renv rinp s)))))"
  using reply_main_blank_gen_calls [of rinp renv s] reply_main_blank_shown [of rinp s renv]
  by (simp add: meal_main_def Let_def emit_def)

theorem empty_field_makes_no_api_call_witness:
  "dietary_preferences (pressed []) = [] \<and> generate_button (pressed [])
   \<and> api_calls (fst (meal_main (fixed_env ''{}'' ''{}'' (Inr week_plan)) (pressed []) fresh)) = []
   \<and> ui (fst (meal_main (fixed_env ''{}'' ''{}'' (Inr week_plan)) (pressed []) fresh))
        = planner_page @ [(Main, StWarning ''Please enter your dietary preferences.'')]
   \<and> py_strip (applicant_text (form '' \<newline> '' True False)) = []
   \<and> submitted (form '' \<newline> '' True False)
   \<and> gen_calls (fst (reply_main numbering_env (form '' \<newline> '' True False) new_session)) = []
   \<and> prefix (responder_page @ [(Main, StError ''Please paste the applicant's message.'' None)])
         (shown (fst (reply_main numbering_env (form '' \<newline> '' True False) new_session)))"
proof -
  have s: "py_strip '' \<newline> '' = []"
    by code_simp
  show ?thesis
    using empty_field_makes_no_api_call [of "pressed []" "fixed_env ''{}'' ''{}'' (Inr week_plan)" fresh
        "form '' \<newline> '' True False" numbering_env new_session]
    by (simp add: pressed_def form_def fresh_def new_session_def s)
qed

text \<open>
  C10. The planner rejects only the empty preferences string: for preferences that
  consist of white space only and are not empty, validation passes and the generation API
  is called with them, whereas the responder, given the same text as the applicant's
  message, strips it, makes no call and shows its validation message.
\<close>

theorem whitespace_only_preferences_reach_the_api:
  assumes "blank \<noteq> []" and "py_strip blank = []"
    and "dietary_preferences pinp = blank" and "generate_button pinp"
    and "applicant_text rinp = blank" and "submitted rinp"
  shows "api_calls (fst (meal_main penv pinp w))
           = api_calls w @ [build_request (build_prompt blank (health_goals pinp) (num_meals pinp))]
         \<and> prefix (ui w @ planner_page @
               [(Main, StInfo ''Generating your personalized meal plan... This might take a moment!''),
                (Main, StSpinner ''Crafting your delicious weekly plan...'')])
              (ui (fst (meal_main penv pinp w)))
         \<and> gen_calls (fst (reply_main renv rinp s)) = gen_calls s
         \<and> prefix (shown s @ responder_page
                     @ [(Main, StError ''Please paste the applicant's message.'' None)])
                  (shown (fst (reply_main renv rinp s)))"
  using assms meal_main_api_calls [of pinp penv w] meal_main_ui_prefix [of pinp w penv]
    reply_main_blank_gen_calls [of rinp renv s] reply_main_blank_shown [of rinp s renv]
  by simp

theorem whitespace_only_preferences_reach_the_api_witness:
  "''  '' \<noteq> [] \<and> py_strip ''  '' = []
   \<and> api_calls (fst (meal_main (fixed_env ''{}'' ''{}'' (Inr week_plan)) (pressed ''  '') fresh))
       = [build_request (build_prompt ''  '' ''Weight Loss'' 2)]
   \<and> gen_calls (fst (reply_main numbering_env (form ''  '' True False) new_session)) = []"
proof -
  have s: "py_strip ''  '' = []"
    by code_simp
  show ?thesis
    using whitespace_only_preferences_reach_the_api [of "''  ''" "pressed ''  ''" "form ''  '' True False"
        "fixed_env ''{}'' ''{}'' (Inr week_plan)" fresh numbering_env new_session]
    by (simp add: pressed_def form_def fresh_def new_session_def s)
qed

subsection \<open>The responder's cache and its regenerate button\<close>

lemma cache_emit_r: "cache (emit_r evs s) = cache s"
  by (simp add: emit_r_def)

lemma cache_init_session: "cache (init_session s) = cache s"
  by (simp add: init_session_def split: option.splits)

lemma cache_display_email: "cache (fst (display_email env inp s)) = cache s"
  by (simp add: display_email_def regenerate_handler_def Let_def emit_r_def
      split: option.splits sum.splits)

lemma generate_email_hit:
  "cache s args = Some r \<Longrightarrow> generate_email env args s = (Inr r, s)"
  by (simp add: generate_email_def)

lemma generate_email_stores:
  "generate_email env args s = (Inr r, s1) \<Longrightarrow> cache s1 args = Some r"
  by (auto simp: generate_email_def generate_email_body_def Let_def
      split: option.splits sum.splits prod.splits)

lemma generate_email_keeps:
  "cache s args = Some r \<Longrightarrow> cache (snd (generate_email env args' s)) args = Some r"
  by (auto simp: generate_email_def generate_email_body_def Let_def
      split: option.splits sum.splits prod.splits)

lemma submit_handler_keeps:
  "cache s args = Some r \<Longrightarrow> cache (fst (submit_handler env inp s)) args = Some r"
proof -
  assume a: "cache s args = Some r"
  let ?a = "(applicant_text inp, tone inp, format_type inp, name inp, role inp, company inp)"
  let ?s = "emit_r [(Main, StSpinner ''Generating email...'')] s"
  have "cache ?s args = Some r"
    using a by (simp add: cache_emit_r)
  then have "cache (snd (generate_email env ?a ?s)) args = Some r"
    by (rule generate_email_keeps)
  then show ?thesis
    using a by (auto simp: submit_handler_def cache_emit_r split: prod.splits sum.splits)
qed

lemma reply_main_keeps:
  "cache s args = Some r \<Longrightarrow> cache (fst (reply_main env inp s)) args = Some r"
proof -
  assume a: "cache s args = Some r"
  let ?s0 = "init_session (emit_r responder_page s)"
  have "cache ?s0 args = Some r"
    using a by (simp add: cache_init_session cache_emit_r)
  then have "cache (fst (submit_handler env inp ?s0)) args = Some r"
    by (rule submit_handler_keeps)
  then show ?thesis
    by (cases "submit_handler env inp ?s0")
      (auto simp: reply_main_def cache_display_email split: option.splits)
qed

text \<open>
  C9. A completed result of \<open>generate_email\<close> is cached by its six arguments: once a
  call has returned a result, a second call with the same arguments returns the same
  result and leaves the state, with its log of API calls, as it is, whatever the endpoint
  would answer now; this still holds after a further run of the script.
\<close>

theorem identical_request_is_served_from_cache:
  assumes "generate_email env args s = (Inr r, s1)"
  shows "generate_email env' args s1 = (Inr r, s1)
         \<and> generate_email env' args (fst (reply_main env'' inp s1))
             = (Inr r, fst (reply_main env'' inp s1))"
  using assms generate_email_stores [of env args s r s1]
    reply_main_keeps [of s1 args r env'' inp]
  by (simp add: generate_email_hit)

theorem identical_request_is_served_from_cache_witness:
  "fst (generate_email numbering_env
          (''Hello'', ''Formal'', ''Rejection'', ''Ann'', ''Clerk'', ''Acme'') new_session)
     = Inr ''Draft 0''
   \<and> generate_email numbering_env
          (''Hello'', ''Formal'', ''Rejection'', ''Ann'', ''Clerk'', ''Acme'')
          (snd (generate_email numbering_env
                  (''Hello'', ''Formal'', ''Rejection'', ''Ann'', ''Clerk'', ''Acme'') new_session))
     = (Inr ''Draft 0'',
        snd (generate_email numbering_env
               (''Hello'', ''Formal'', ''Rejection'', ''Ann'', ''Clerk'', ''Acme'') new_session))
   \<and> length (gen_calls (snd (generate_email numbering_env
          (''Hello'', ''Formal'', ''Rejection'', ''Ann'', ''Clerk'', ''Acme'') new_session))) = 1"
proof -
  let ?a = "(''Hello'', ''Formal'', ''Rejection'', ''Ann'', ''Clerk'', ''Acme'')"
  have r: "fst (generate_email numbering_env ?a new_session) = Inr ''Draft 0''"
    by code_simp
  have n: "length (gen_calls (snd (generate_email numbering_env ?a new_session))) = 1"
    by code_simp
  have "generate_email numbering_env ?a new_session
          = (Inr ''Draft 0'', snd (generate_email numbering_env ?a new_session))"
    using r by (simp add: prod_eq_iff)
  then show ?thesis
    using r n identical_request_is_served_from_cache
      [of numbering_env ?a new_session "''Draft 0''"
          "snd (generate_email numbering_env ?a new_session)" numbering_env]
    by simp
qed

text \<open>
  C4. When the regenerate button is pressed, the stored draft (\<open>email_content\<close> of the
  session) becomes the fixed text "Thank you for your application." and the generation
  API is not called: the handler changes neither the call log nor the cache, and so does
  the whole run that a press of the button starts (the form not submitted, a draft shown,
  its PDF written).
\<close>

theorem regenerate_resets_draft_to_placeholder:
  assumes "regenerate inp"
  shows "placeholder = ''Thank you for your application.''
         \<and> email_content (regenerate_handler inp s) = Some placeholder
         \<and> gen_calls (regenerate_handler inp s) = gen_calls s
         \<and> cache (regenerate_handler inp s) = cache s
         \<and> (\<not> submitted inp \<and> email_content s = Some draft \<and> draft \<noteq> []
              \<and> write_pdf env (split_nl draft) = None \<longrightarrow>
            snd (reply_main env inp s) = None
            \<and> email_content (fst (reply_main env inp s)) = Some placeholder
            \<and> gen_calls (fst (reply_main env inp s)) = gen_calls s
            \<and> cache (fst (reply_main env inp s)) = cache s)"
  using assms
  by (simp add: placeholder_def regenerate_handler_def reply_main_def submit_handler_def
      display_email_def create_pdf_def init_session_def emit_r_def Let_def)

theorem regenerate_resets_draft_to_placeholder_witness:
  "regenerate (form ''Hello'' False True)
   \<and> \<not> submitted (form ''Hello'' False True)
   \<and> email_content (fst (reply_main numbering_env (form ''Hello'' False True)
        (new_session\<lparr>email_content := Some ''Dear Ann''\<rparr>)))
       = Some ''Thank you for your application.''
   \<and> gen_calls (fst (reply_main numbering_env (form ''Hello'' False True)
        (new_session\<lparr>email_content := Some ''Dear Ann''\<rparr>))) = []"
  using regenerate_resets_draft_to_placeholder
    [of "form ''Hello'' False True" "new_session\<lparr>email_content := Some ''Dear Ann''\<rparr>"
        "''Dear Ann''" numbering_env]
  by (simp add: form_def new_session_def numbering_env_def)

subsection \<open>Failures of the generation call\<close>

lemma exn_bind_Inr: "exn_bind m f = Inr y \<longleftrightarrow> (\<exists>x. m = Inr x \<and> f x = Inr y)"
  by (cases m) auto

lemma sub_key_Inr: "sub_key k v = Inr x \<Longrightarrow> \<exists>kvs. v = JObj kvs \<and> map_of kvs k = Some x"
  by (cases v) (auto split: option.splits)

lemma sub_zero_truthy: "sub_zero v = Inr x \<Longrightarrow> py_truthy v"
  by (erule sub_zero.elims) auto

lemma sub_key_truthy: "sub_key k v = Inr x \<Longrightarrow> py_truthy v"
  by (cases v) (auto split: option.splits)

lemma sub_key_dot_get: "sub_key k v = Inr x \<Longrightarrow> dot_get k v = Inr x"
  by (cases v) (auto simp: dot_get_def split: option.splits)

lemma envelope_text_check:
  assumes "envelope_text result = Inr v"
  shows "envelope_check result = Inr v"
proof -
  from assms obtain c c0 ct p p0 where
    c: "sub_key ''candidates'' result = Inr c" and c0: "sub_zero c = Inr c0"
    and ct: "sub_key ''content'' c0 = Inr ct" and p: "sub_key ''parts'' ct = Inr p"
    and p0: "sub_zero p = Inr p0" and v: "sub_key ''text'' p0 = Inr v"
    unfolding envelope_text_def exn_bind_Inr by blast
  have t: "py_truthy result" "py_truthy c" "py_truthy ct" "py_truthy p"
    using c c0 p p0 by (auto dest: sub_key_truthy sub_zero_truthy)
  show ?thesis
    unfolding envelope_check_def
    using c c0 ct p p0 v t
    by (simp add: sub_key_dot_get)
qed

lemma try_block_unparseable:
  assumes "raise_for_status r = None" and "resp_json r = Inr result"
    and "envelope_text result = Inr (JStr s)" and "json_loads env s = Inl e"
  shows "try_block env r = (if s = [] then Inr (unexpected_format result, JNull) else Inl e)"
  using assms envelope_text_check [OF assms(3)]
  by (simp add: try_block_def)

lemma generate_meal_plan_unparseable:
  assumes "requests_post env (length (api_calls w)) (build_request (build_prompt preferences goals n))
             = PostReturns r"
    and "raise_for_status r = None" and "resp_json r = Inr result"
    and "envelope_text result = Inr (JStr s)" and "json_loads env s = Inl (JSONDecodeError m)"
  shows "generate_meal_plan env preferences goals n w =
           (JNull, (emit (if s = [] then unexpected_format result
                          else on_json_decode_error (JSONDecodeError m) r) w)
                   \<lparr>api_calls := api_calls w @ [build_request (build_prompt preferences goals n)]\<rparr>)"
  using assms(1) try_block_unparseable [OF assms(2-5)]
  by (simp add: generate_meal_plan_def Let_def except_clauses_def emit_def)

text \<open>
  C2. When the text of the API response's envelope cannot be parsed as JSON,
  \<open>generate_meal_plan\<close> returns \<open>None\<close> and shows a diagnostic with the raw payload:
  for a text that is not empty, the parse error, then the raw body of the response
  (\<open>response.text\<close>); for the empty text, which is never given to the parser, the
  unexpected-format error, then the raw envelope. The run of the script that made the
  call ends without an exception and renders no plan.
\<close>

theorem unparseable_text_is_reported:
  fixes r :: response and result :: json and s m :: string
  defines "diagnostic \<equiv>
             (if s = [] then
                [(Main, StError ''Error: Unexpected response format from Gemini API.'' None),
                 (Main, StJson result)]
              else
                [(Main, StError ''Error parsing JSON response from Gemini API: ''
                          (Some (JSONDecodeError m))),
                 (Main, StWrite ''Raw API response content (might be malformed JSON):''),
                 (Main, StCode (resp_text r))])"
  assumes "requests_post env (length (api_calls w)) (build_request (build_prompt preferences goals n))
             = PostReturns r"
    and "resp_status r < 400 \<or> 600 \<le> resp_status r"
    and "resp_json r = Inr result"
    and "envelope_text result = Inr (JStr s)"
    and "json_loads env s = Inl (JSONDecodeError m)"
  shows "fst (generate_meal_plan env preferences goals n w) = JNull
         \<and> ui (snd (generate_meal_plan env preferences goals n w)) = ui w @ diagnostic
         \<and> (generate_button inp \<and> dietary_preferences inp = preferences \<and> preferences \<noteq> []
              \<and> health_goals inp = goals \<and> num_meals inp = n \<longrightarrow>
            snd (meal_main env inp w) = None
            \<and> ui (fst (meal_main env inp w))
                = ui w @ planner_page
                  @ [(Main, StInfo ''Generating your personalized meal plan... This might take a moment!''),
                     (Main, StSpinner ''Crafting your delicious weekly plan...'')]
                  @ diagnostic)"
proof -
  have ok: "raise_for_status r = None"
    using assms(3) by (auto simp: raise_for_status_def)
  let ?w2 = "emit [(Main, StInfo ''Generating your personalized meal plan... This might take a moment!''),
                   (Main, StSpinner ''Crafting your delicious weekly plan...'')] (emit planner_page w)"
  have d: "(if s = [] then unexpected_format result else on_json_decode_error (JSONDecodeError m) r)
             = diagnostic"
    by (simp add: diagnostic_def unexpected_format_def on_json_decode_error_def)
  have "requests_post env (length (api_calls ?w2)) (build_request (build_prompt preferences goals n))
          = PostReturns r"
    using assms(2) by (simp add: api_calls_emit)
  note g2 = generate_meal_plan_unparseable [OF this ok assms(4-6), unfolded d]
  note g = generate_meal_plan_unparseable [OF assms(2) ok assms(4-6), unfolded d]
  have "fst (generate_meal_plan env preferences goals n w) = JNull"
    and "ui (snd (generate_meal_plan env preferences goals n w)) = ui w @ diagnostic"
    by (simp_all add: g ui_emit)
  moreover have "snd (meal_main env inp w) = None
      \<and> ui (fst (meal_main env inp w))
                = ui w @ planner_page
                  @ [(Main, StInfo ''Generating your personalized meal plan... This might take a moment!''),
                     (Main, StSpinner ''Crafting your delicious weekly plan...'')]
                  @ diagnostic"
    if "generate_button inp" "dietary_preferences inp = preferences" "preferences \<noteq> []"
       "health_goals inp = goals" "num_meals inp = n"
    unfolding meal_main_def Let_def using that
    by (simp add: g2 ui_emit)
  ultimately show ?thesis
    by blast
qed

theorem unparseable_text_is_reported_witness:
  "fst (generate_meal_plan (fixed_env ''<body>'' ''[1, 2'' (Inl (JSONDecodeError ''Expecting , delimiter'')))
          ''Vegan'' ''Weight Loss'' 2 fresh) = JNull
   \<and> ui (snd (generate_meal_plan (fixed_env ''<body>'' ''[1, 2'' (Inl (JSONDecodeError ''Expecting , delimiter'')))
          ''Vegan'' ''Weight Loss'' 2 fresh))
       = [(Main, StError ''Error parsing JSON response from Gemini API: ''
                   (Some (JSONDecodeError ''Expecting , delimiter''))),
          (Main, StWrite ''Raw API response content (might be malformed JSON):''),
          (Main, StCode ''<body>'')]
   \<and> snd (meal_main (fixed_env ''<body>'' ''[1, 2'' (Inl (JSONDecodeError ''Expecting , delimiter'')))
          (pressed ''Vegan'') fresh) = None"
  using unparseable_text_is_reported
    [of "fixed_env ''<body>'' ''[1, 2'' (Inl (JSONDecodeError ''Expecting , delimiter''))" fresh
        "''Vegan''" "''Weight Loss''" 2 "ok_response ''<body>'' ''[1, 2''"
        "gemini_envelope ''[1, 2''" "''[1, 2''" "''Expecting , delimiter''" "pressed ''Vegan''"]
  by (simp add: fixed_env_def ok_response_def gemini_envelope_def envelope_text_def fresh_def
      pressed_def)

text \<open>
  C6. \<open>generate_meal_plan\<close> calls the API exactly once, and then either everything went
  well (the call returned, the status was no error, the body was JSON, the envelope held
  a text, the text parsed) and it returns the parsed value whole, showing nothing, or it
  returns \<open>None\<close> and has shown an error message. No exception leaves the function: its
  result is a value in every case.
\<close>

theorem generation_failures_are_caught:
  "api_calls (snd (generate_meal_plan env preferences goals n w))
     = api_calls w @ [build_request (build_prompt preferences goals n)]
   \<and> ((\<exists>r result s.
          requests_post env (length (api_calls w)) (build_request (build_prompt preferences goals n))
            = PostReturns r
          \<and> raise_for_status r = None
          \<and> resp_json r = Inr result
          \<and> envelope_text result = Inr (JStr s)
          \<and> json_loads env s = Inr (fst (generate_meal_plan env preferences goals n w))
          \<and> ui (snd (generate_meal_plan env preferences goals n w)) = ui w)
       \<or> (fst (generate_meal_plan env preferences goals n w) = JNull
           \<and> (\<exists>msg e rest.
                 ui (snd (generate_meal_plan env preferences goals n w))
                   = ui w @ (Main, StError msg e) # rest)))"
proof -
  let ?req = "build_request (build_prompt preferences goals n)"
  show ?thesis
  proof (cases "requests_post env (length (api_calls w)) ?req")
    case (PostRequestException m)
    then show ?thesis
      by (simp add: generate_meal_plan_def Let_def emit_def on_request_exception_def)
  next
    case (PostOtherException m)
    then show ?thesis
      by (simp add: generate_meal_plan_def Let_def emit_def on_exception_def)
  next
    case (PostReturns r)
    show ?thesis
    proof (cases "try_block env r")
      case (Inl e)
      then show ?thesis
        using PostReturns
        by (simp add: generate_meal_plan_def Let_def emit_def except_clauses_def
            on_request_exception_def on_json_decode_error_def on_exception_def)
    next
      case (Inr p)
      obtain evs v where p: "p = (evs, v)"
        by (cases p)
      show ?thesis
      proof (cases "evs = []")
        case True
        from Inr p True have "try_block env r = Inr ([], v)"
          by simp
        then obtain result js where
          "raise_for_status r = None" "resp_json r = Inr result"
          "envelope_text result = Inr js" "loads_value env js = Inr v"
          by (auto simp: try_block_def exn_bind_Inr unexpected_format_def
              split: option.splits if_splits)
        moreover from this obtain s where "js = JStr s" "json_loads env s = Inr v"
          by (cases js) auto
        ultimately show ?thesis
          using PostReturns Inr p True
          by (simp add: generate_meal_plan_def Let_def emit_def)
      next
        case False
        with Inr p have "evs = unexpected_format (case resp_json r of Inr x \<Rightarrow> x) \<and> v = JNull"
          by (auto simp: try_block_def exn_bind_Inr split: option.splits if_splits)
        then show ?thesis
          using PostReturns Inr p
          by (simp add: generate_meal_plan_def Let_def emit_def unexpected_format_def)
      qed
    qed
  qed
qed

theorem generation_failures_are_caught_witness:
  "api_calls (snd (generate_meal_plan unreachable_env ''Vegan'' ''Weight Loss'' 2 fresh))
     = [build_request (build_prompt ''Vegan'' ''Weight Loss'' 2)]
   \<and> fst (generate_meal_plan unreachable_env ''Vegan'' ''Weight Loss'' 2 fresh) = JNull
   \<and> (\<exists>msg e rest.
         ui (snd (generate_meal_plan unreachable_env ''Vegan'' ''Weight Loss'' 2 fresh))
           = (Main, StError msg e) # rest)"
  using generation_failures_are_caught [of unreachable_env "''Vegan''" "''Weight Loss''" 2 fresh]
  by (simp add: unreachable_env_def fresh_def)

subsection \<open>Rendering a plan that conforms to the schema\<close>

lemma day_sections_append: "day_sections (evs @ evs') = day_sections evs @ day_sections evs'"
  by (simp add: day_sections_def)

lemma checkbox_labels_append:
  "checkbox_labels (evs @ evs') = checkbox_labels evs @ checkbox_labels evs'"
  by (simp add: checkbox_labels_def)

lemma seq_None:
  "snd a = None \<Longrightarrow> seq a b = (fst a @ fst b, snd b)"
  by (cases a; cases b) simp

lemma for_each_None:
  "list_all (\<lambda>x. snd (f x) = None) xs \<Longrightarrow>
     for_each f xs = (concat (map (\<lambda>x. fst (f x)) xs), None)"
  by (induction xs) (simp_all add: seq_None)

lemma for_each_single: "for_each (\<lambda>x. ([g x], None)) xs = (map g xs, None)"
  by (induction xs) simp_all

lemma conforms_SString: "conforms SString v \<longleftrightarrow> (\<exists>s. v = JStr s)"
  by (cases v) simp_all

lemma conforms_SArray: "conforms (SArray sc) v \<longleftrightarrow> (\<exists>xs. v = JArr xs \<and> list_all (conforms sc) xs)"
  by (cases v) simp_all

lemma conforms_meal:
  assumes "conforms meal_schema meal"
  obtains kvs ty rn ings ins where "meal = JObj kvs"
    and "map_of kvs ''type'' = Some (JStr ty)" and "map_of kvs ''recipe_name'' = Some (JStr rn)"
    and "map_of kvs ''ingredients'' = Some (JArr ings)"
    and "map_of kvs ''instructions'' = Some (JStr ins)"
  using assms
  by (cases meal) (auto simp: meal_schema_def conforms_SString conforms_SArray)

lemma conforms_day:
  assumes "conforms day_schema d"
  obtains kvs l meals where "d = JObj kvs"
    and "map_of kvs ''day'' = Some (JStr l)" and "map_of kvs ''meals'' = Some (JArr meals)"
    and "list_all (conforms meal_schema) meals"
  using assms
  by (cases d) (auto simp: day_schema_def conforms_SString conforms_SArray)

lemma conforms_plan:
  assumes "conforms response_schema plan"
  obtains kvs days items where "plan = JObj kvs"
    and "map_of kvs ''weekly_meal_plan'' = Some (JArr days)"
    and "list_all (conforms day_schema) days"
    and "map_of kvs ''shopping_list'' = Some (JArr items)"
    and "list_all (conforms SString) items"
  using assms
  by (cases plan)
    (auto simp: response_schema_def day_schema_def meal_schema_def conforms_SString conforms_SArray)

lemma render_meal_conforming:
  assumes "conforms meal_schema meal"
  shows "snd (render_meal env (Tab i) meal) = None
         \<and> day_sections (fst (render_meal env (Tab i) meal)) = []
         \<and> checkbox_labels (fst (render_meal env (Tab i) meal)) = []"
proof -
  from assms obtain kvs ty rn ings ins where m: "meal = JObj kvs"
    "map_of kvs ''type'' = Some (JStr ty)" "map_of kvs ''recipe_name'' = Some (JStr rn)"
    "map_of kvs ''ingredients'' = Some (JArr ings)" "map_of kvs ''instructions'' = Some (JStr ins)"
    by (rule conforms_meal)
  have d: "day_sections (map (\<lambda>ingredient. (Tab i, StWrite (''- '' @ fmt env ingredient))) ings) = []"
    by (induction ings) (simp_all add: day_sections_def)
  have c: "checkbox_labels (map (\<lambda>ingredient. (Tab i, StWrite (''- '' @ fmt env ingredient))) ings) = []"
    by (induction ings) (simp_all add: checkbox_labels_def)
  have "render_meal env (Tab i) meal
          = ([(Tab i, StMarkdown (''**'' @ ty @ '':** '' @ rn)), (Tab i, StMarkdown ''**Ingredients:**'')]
             @ map (\<lambda>ingredient. (Tab i, StWrite (''- '' @ fmt env ingredient))) ings
             @ [(Tab i, StMarkdown ''**Instructions:**''), (Tab i, StMarkdownValue (JStr ins)),
                (Tab i, StMarkdown ''---'')], None)"
    using m by (simp add: render_meal_def display_def for_each_single)
  then show ?thesis
    by (simp add: day_sections_append checkbox_labels_append d c)
      (simp add: day_sections_def checkbox_labels_def)
qed

lemma render_day_conforming:
  assumes "conforms day_schema d"
  shows "snd (render_day env (i, d)) = None
         \<and> day_sections (fst (render_day env (i, d))) = [(i, ''___'' @ day_name d @ ''___'')]
         \<and> checkbox_labels (fst (render_day env (i, d))) = []"
proof -
  from assms obtain kvs l meals where d: "d = JObj kvs"
    "map_of kvs ''day'' = Some (JStr l)" "map_of kvs ''meals'' = Some (JArr meals)"
    "list_all (conforms meal_schema) meals"
    by (rule conforms_day)
  have n: "day_name d = l"
    using d by (simp add: day_name_def)
  have ok: "list_all (\<lambda>m. snd (render_meal env (Tab i) m) = None) meals"
    using d(4) by (simp add: list_all_iff render_meal_conforming)
  have f: "for_each (render_meal env (Tab i)) meals
             = (concat (map (\<lambda>m. fst (render_meal env (Tab i) m)) meals), None)"
    using ok by (rule for_each_None)
  have ds: "day_sections (concat (map (\<lambda>m. fst (render_meal env (Tab i) m)) meals)) = []"
    using d(4) by (induction meals) (simp_all add: day_sections_append render_meal_conforming, simp add: day_sections_def)
  have cs: "checkbox_labels (concat (map (\<lambda>m. fst (render_meal env (Tab i) m)) meals)) = []"
    using d(4) by (induction meals) (simp_all add: checkbox_labels_append render_meal_conforming, simp add: checkbox_labels_def)
  have "render_day env (i, d)
          = ((Tab i, StSubheader (''___'' @ l @ ''___''))
             # (if meals = [] then [(Tab i, StWrite ''No meals planned for this day.'')]
                else concat (map (\<lambda>m. fst (render_meal env (Tab i) m)) meals)), None)"
    using d by (simp add: render_day_def f display_def)
  then show ?thesis
    using ds cs n by (simp add: day_sections_def checkbox_labels_def)
qed

lemma render_days_conforming:
  assumes "list_all (conforms day_schema) days"
  shows "snd (for_each (render_day env) (enumerate k days)) = None
         \<and> day_sections (fst (for_each (render_day env) (enumerate k days)))
             = map (\<lambda>p. (fst p, ''___'' @ day_name (snd p) @ ''___'')) (enumerate k days)
         \<and> checkbox_labels (fst (for_each (render_day env) (enumerate k days))) = []"
  using assms
proof (induction days arbitrary: k)
  case Nil
  then show ?case
    by (simp add: day_sections_def checkbox_labels_def)
next
  case (Cons d ds)
  then have d: "conforms day_schema d" and ds: "list_all (conforms day_schema) ds"
    by simp_all
  note h = render_day_conforming [OF d, of env k]
  note ih = Cons.IH [OF ds, of "Suc k"]
  show ?case
    using h ih by (simp add: seq_None day_sections_append checkbox_labels_append)
qed

lemma day_labels_conforming:
  assumes "list_all (conforms day_schema) days"
  shows "map_exn (sub_key ''day'') days = Inr (map (\<lambda>d. JStr (day_name d)) days)"
  using assms
proof (induction days)
  case Nil
  then show ?case by simp
next
  case (Cons d ds)
  then have "conforms day_schema d"
    by simp
  then obtain kvs l meals where "d = JObj kvs" "map_of kvs ''day'' = Some (JStr l)"
    by (rule conforms_day)
  then have "sub_key ''day'' d = Inr (JStr (day_name d))"
    by (simp add: day_name_def)
  then show ?case
    using Cons by simp
qed

lemma st_tabs_strings:
  "days \<noteq> [] \<Longrightarrow>
     st_tabs (map (\<lambda>d. JStr (day_name d)) days)
       = ([(Main, StTabs (map (\<lambda>d. JStr (day_name d)) days))], None)"
  by (simp add: st_tabs_def display_def list_all_iff)

lemma for_each_render_item:
  "for_each render_item ps
     = (map (\<lambda>p. (Column (fst p mod 3), StCheckbox (snd p) False (''item_'' @ str_nat (fst p)))) ps,
        None)"
  by (induction ps) (simp_all add: render_item_def display_def split: prod.splits)

lemma checkbox_labels_Nil: "checkbox_labels [] = []"
  by (simp add: checkbox_labels_def)

lemma checkbox_labels_Cons:
  "checkbox_labels (ev # evs)
     = (case ev of (c, StCheckbox l v k) \<Rightarrow> [l] | _ \<Rightarrow> []) @ checkbox_labels evs"
  by (simp add: checkbox_labels_def)

lemma day_sections_Nil: "day_sections [] = []"
  by (simp add: day_sections_def)

lemma day_sections_Cons:
  "day_sections (ev # evs)
     = (case ev of (Tab i, StSubheader t) \<Rightarrow> [(i, t)] | _ \<Rightarrow> []) @ day_sections evs"
  by (simp add: day_sections_def)

lemma checkbox_labels_items:
  "checkbox_labels (map (\<lambda>p. (c p, StCheckbox (snd p) (b p) (k p))) ps) = map snd ps"
  by (induction ps) (simp_all add: checkbox_labels_Nil checkbox_labels_Cons)

lemma day_sections_items:
  "day_sections (map (\<lambda>p. (c p, StCheckbox (l p) (b p) (k p))) ps) = []"
  by (induction ps) (simp_all add: day_sections_Nil day_sections_Cons split: container.splits)

lemma render_shopping_list_array:
  assumes "dot_get_default ''shopping_list'' (JArr []) meal_plan_data = Inr (JArr items)"
  shows "snd (render_shopping_list meal_plan_data) = None
         \<and> checkbox_labels (fst (render_shopping_list meal_plan_data)) = items
         \<and> day_sections (fst (render_shopping_list meal_plan_data)) = []
         \<and> (items = [] \<longrightarrow>
              (Main, StWrite ''No shopping list generated.'')
                 \<in> set (fst (render_shopping_list meal_plan_data)))"
proof -
  have "render_shopping_list meal_plan_data
          = ((Main, StHeader (''Shopping List '' @ [CHR 0xF0, CHR 0x9F, CHR 0x9B, CHR 0x92]))
             # (if items = [] then [(Main, StWrite ''No shopping list generated.'')]
                else (Main, StColumns 3)
                     # map (\<lambda>p. (Column (fst p mod 3),
                                  StCheckbox (snd p) False (''item_'' @ str_nat (fst p))))
                         (enumerate 0 items)), None)"
    using assms by (simp add: render_shopping_list_def display_def for_each_render_item)
  then show ?thesis
    by (simp add: checkbox_labels_items day_sections_items map_snd_enumerate
        checkbox_labels_Nil checkbox_labels_Cons day_sections_Nil day_sections_Cons)
qed

lemma render_plan_conforming:
  assumes "conforms response_schema plan"
    and "sub_key ''weekly_meal_plan'' plan = Inr (JArr days)" and "days \<noteq> []"
    and "sub_key ''shopping_list'' plan = Inr (JArr items)"
  shows "snd (render_plan env plan) = None
         \<and> (Main, StTabs (map (\<lambda>d. JStr (day_name d)) days)) \<in> set (fst (render_plan env plan))
         \<and> day_sections (fst (render_plan env plan))
             = map (\<lambda>p. (fst p, ''___'' @ day_name (snd p) @ ''___'')) (enumerate 0 days)
         \<and> checkbox_labels (fst (render_plan env plan)) = items"
proof -
  from assms(1) obtain kvs days' items' where p: "plan = JObj kvs"
    "map_of kvs ''weekly_meal_plan'' = Some (JArr days')" "list_all (conforms day_schema) days'"
    "map_of kvs ''shopping_list'' = Some (JArr items')"
    by (rule conforms_plan)
  have days: "days' = days" and items: "items' = items"
    using assms(2,4) p by simp_all
  note loop = render_days_conforming [OF p(3) [unfolded days], of env 0]
  have weekly: "render_weekly_plan env plan
      = ([(Main, StSuccess ''Meal Plan Generated Successfully!''),
          (Main, StHeader (''Weekly Meal Plan ''
            @ [CHR 0xF0, CHR 0x9F, CHR 0x97, CHR 0x93, CHR 0xEF, CHR 0xB8, CHR 0x8F])),
          (Main, StTabs (map (\<lambda>d. JStr (day_name d)) days))]
         @ fst (for_each (render_day env) (enumerate 0 days)), None)"
    using assms(2,3) loop day_labels_conforming [OF p(3) [unfolded days]]
    by (simp add: render_weekly_plan_def display_def st_tabs_strings seq_None)
  have "dot_get_default ''shopping_list'' (JArr []) plan = Inr (JArr items)"
    using p items by simp
  note shop = render_shopping_list_array [OF this]
  show ?thesis
    using loop shop
    by (simp add: render_plan_def weekly seq_None day_sections_append checkbox_labels_append
        day_sections_Nil day_sections_Cons checkbox_labels_Nil checkbox_labels_Cons)
qed

lemma generate_meal_plan_success:
  assumes "requests_post env (length (api_calls w)) (build_request (build_prompt preferences goals n))
             = PostReturns r"
    and "raise_for_status r = None" and "resp_json r = Inr result"
    and "envelope_text result = Inr (JStr s)" and "s \<noteq> []" and "json_loads env s = Inr plan"
  shows "generate_meal_plan env preferences goals n w
           = (plan, w\<lparr>api_calls := api_calls w @ [build_request (build_prompt preferences goals n)]\<rparr>)"
proof -
  have "try_block env r = Inr ([], plan)"
    using assms(2-6) envelope_text_check [OF assms(4)] by (simp add: try_block_def)
  then show ?thesis
    using assms(1) by (simp add: generate_meal_plan_def Let_def emit_def)
qed

lemma meal_main_success:
  assumes "generate_button inp" and "dietary_preferences inp \<noteq> []"
    and "requests_post env (length (api_calls w))
           (build_request (build_prompt (dietary_preferences inp) (health_goals inp) (num_meals inp)))
             = PostReturns r"
    and "resp_status r < 400 \<or> 600 \<le> resp_status r" and "resp_json r = Inr result"
    and "envelope_text result = Inr (JStr s)" and "s \<noteq> []" and "json_loads env s = Inr plan"
    and "py_truthy plan"
  shows "snd (meal_main env inp w) = snd (render_plan env plan)
         \<and> ui (fst (meal_main env inp w))
             = ui w @ planner_page
               @ [(Main, StInfo ''Generating your personalized meal plan... This might take a moment!''),
                  (Main, StSpinner ''Crafting your delicious weekly plan...'')]
               @ fst (render_plan env plan)"
proof -
  have ok: "raise_for_status r = None"
    using assms(4) by (auto simp: raise_for_status_def)
  let ?w2 = "emit [(Main, StInfo ''Generating your personalized meal plan... This might take a moment!''),
                   (Main, StSpinner ''Crafting your delicious weekly plan...'')] (emit planner_page w)"
  have "requests_post env (length (api_calls ?w2))
          (build_request (build_prompt (dietary_preferences inp) (health_goals inp) (num_meals inp)))
          = PostReturns r"
    using assms(3) by (simp add: api_calls_emit)
  note g = generate_meal_plan_success [OF this ok assms(5-8)]
  show ?thesis
    unfolding meal_main_def Let_def using assms(1,2,9)
    by (simp add: g ui_emit split: prod.splits)
qed

lemma day_sections_page: "day_sections planner_page = []"
  by (simp add: planner_page_def day_sections_Nil day_sections_Cons)

lemma checkbox_labels_page: "checkbox_labels planner_page = []"
  by (simp add: planner_page_def checkbox_labels_Nil checkbox_labels_Cons)

lemma conforms_truthy: "conforms response_schema plan \<Longrightarrow> py_truthy plan"
  by (cases plan) (auto simp: response_schema_def)

text \<open>
  C3. For preferences that are not empty and an API response whose text parses to a plan
  that conforms to the response schema and has exactly seven day entries, the run ends
  without an exception, creates one tab per entry, labelled with the entries' days in
  their order, and shows exactly seven day sections: the sub-header of the \<open>i\<close>-th
  entry in the \<open>i\<close>-th tab, for \<open>i\<close> from 0 to 6.
\<close>

theorem seven_days_give_seven_sections:
  assumes "generate_button inp" and "dietary_preferences inp \<noteq> []"
    and "requests_post env (length (api_calls w))
           (build_request (build_prompt (dietary_preferences inp) (health_goals inp) (num_meals inp)))
             = PostReturns r"
    and "resp_status r < 400 \<or> 600 \<le> resp_status r" and "resp_json r = Inr result"
    and "envelope_text result = Inr (JStr s)" and "s \<noteq> []" and "json_loads env s = Inr plan"
    and "conforms response_schema plan"
    and "sub_key ''weekly_meal_plan'' plan = Inr (JArr days)" and "length days = 7"
  shows "snd (meal_main env inp w) = None
         \<and> (Main, StTabs (map (\<lambda>d. JStr (day_name d)) days))
               \<in> set (drop (length (ui w)) (ui (fst (meal_main env inp w))))
         \<and> day_sections (drop (length (ui w)) (ui (fst (meal_main env inp w))))
             = map (\<lambda>p. (fst p, ''___'' @ day_name (snd p) @ ''___'')) (enumerate 0 days)
         \<and> map fst (day_sections (drop (length (ui w)) (ui (fst (meal_main env inp w)))))
             = [0, 1, 2, 3, 4, 5, 6]"
proof -
  have ne: "days \<noteq> []"
    using assms(11) by auto
  from assms(9) obtain kvs days' items where "plan = JObj kvs"
    "map_of kvs ''shopping_list'' = Some (JArr items)"
    by (rule conforms_plan)
  then have "sub_key ''shopping_list'' plan = Inr (JArr items)"
    by simp
  note rp = render_plan_conforming [OF assms(9,10) ne this, of env]
  note mm = meal_main_success [OF assms(1-8) conforms_truthy [OF assms(9)]]
  have "map fst (enumerate 0 days) = [0..<7]"
    using assms(11) by (simp add: map_fst_enumerate)
  also have "[0..<7] = [0, 1, 2, 3, 4, 5, 6::nat]"
    by (simp add: upt_rec)
  finally have ix: "map fst (enumerate 0 days) = [0, 1, 2, 3, 4, 5, 6]" .
  show ?thesis
    using rp mm ix
    by (simp add: day_sections_append day_sections_page day_sections_Nil day_sections_Cons
        comp_def)
qed

theorem seven_days_give_seven_sections_witness:
  "snd (meal_main (fixed_env ''<body>'' ''<plan>'' (Inr week_plan)) (pressed ''Vegan'') fresh) = None
   \<and> day_sections
         (ui (fst (meal_main (fixed_env ''<body>'' ''<plan>'' (Inr week_plan)) (pressed ''Vegan'') fresh)))
       = [(0, ''___Monday___''), (1, ''___Tuesday___''), (2, ''___Wednesday___''),
          (3, ''___Thursday___''), (4, ''___Friday___''), (5, ''___Saturday___''),
          (6, ''___Sunday___'')]"
  using seven_days_give_seven_sections
    [of "pressed ''Vegan''" "fixed_env ''<body>'' ''<plan>'' (Inr week_plan)" fresh
        "ok_response ''<body>'' ''<plan>''" "gemini_envelope ''<plan>''" "''<plan>''" week_plan
        "[plan_day ''Monday'' [porridge], plan_day ''Tuesday'' [],
          plan_day ''Wednesday'' [porridge], plan_day ''Thursday'' [],
          plan_day ''Friday'' [], plan_day ''Saturday'' [porridge],
          plan_day ''Sunday'' []]"]
  by (simp add: fixed_env_def ok_response_def gemini_envelope_def envelope_text_def pressed_def
      fresh_def week_plan_def plan_day_def porridge_def response_schema_def day_name_def)

text \<open>
  C5, as amended. The script does not deduplicate: for an API response whose text parses
  to a plan that conforms to the response schema and has at least one day entry, the
  checkboxes of the shopping list carry exactly the entries of the response's
  \<open>shopping_list\<close> array, in its order and one checkbox per entry, so the list shown is
  free of duplicates exactly when the array is.
\<close>

theorem shopping_list_is_shown_as_received:
  assumes "generate_button inp" and "dietary_preferences inp \<noteq> []"
    and "requests_post env (length (api_calls w))
           (build_request (build_prompt (dietary_preferences inp) (health_goals inp) (num_meals inp)))
             = PostReturns r"
    and "resp_status r < 400 \<or> 600 \<le> resp_status r" and "resp_json r = Inr result"
    and "envelope_text result = Inr (JStr s)" and "s \<noteq> []" and "json_loads env s = Inr plan"
    and "conforms response_schema plan"
    and "sub_key ''weekly_meal_plan'' plan = Inr (JArr days)" and "days \<noteq> []"
    and "sub_key ''shopping_list'' plan = Inr (JArr items)"
  shows "snd (meal_main env inp w) = None
         \<and> checkbox_labels (drop (length (ui w)) (ui (fst (meal_main env inp w)))) = items
         \<and> (distinct (checkbox_labels (drop (length (ui w)) (ui (fst (meal_main env inp w)))))
              \<longleftrightarrow> distinct items)"
proof -
  note rp = render_plan_conforming [OF assms(9-12), of env]
  note mm = meal_main_success [OF assms(1-8) conforms_truthy [OF assms(9)]]
  show ?thesis
    using rp mm
    by (simp add: checkbox_labels_append checkbox_labels_page checkbox_labels_Nil
        checkbox_labels_Cons)
qed

theorem shopping_list_is_shown_as_received_witness:
  "snd (meal_main (fixed_env ''<body>'' ''<plan>'' (Inr week_plan)) (pressed ''Vegan'') fresh) = None
   \<and> checkbox_labels
         (ui (fst (meal_main (fixed_env ''<body>'' ''<plan>'' (Inr week_plan)) (pressed ''Vegan'') fresh)))
       = [JStr ''oats'', JStr ''water'']"
  using shopping_list_is_shown_as_received
    [of "pressed ''Vegan''" "fixed_env ''<body>'' ''<plan>'' (Inr week_plan)" fresh
        "ok_response ''<body>'' ''<plan>''" "gemini_envelope ''<plan>''" "''<plan>''" week_plan
        "[plan_day ''Monday'' [porridge], plan_day ''Tuesday'' [],
          plan_day ''Wednesday'' [porridge], plan_day ''Thursday'' [],
          plan_day ''Friday'' [], plan_day ''Saturday'' [porridge],
          plan_day ''Sunday'' []]" "[JStr ''oats'', JStr ''water'']"]
  by (simp add: fixed_env_def ok_response_def gemini_envelope_def envelope_text_def pressed_def
      fresh_def week_plan_def plan_day_def porridge_def response_schema_def)

text \<open>
  C5 as stated fails: a conforming plan that names ''egg'' twice is shown with two
  checkboxes labelled ''egg''.
\<close>

theorem shopping_list_duplicates_counterexample:
  "conforms response_schema repeated_plan
   \<and> checkbox_labels
         (ui (fst (meal_main (fixed_env ''<body>'' ''<plan>'' (Inr repeated_plan))
                     (pressed ''Vegan'') fresh)))
       = [JStr ''egg'', JStr ''egg'']
   \<and> \<not> distinct (checkbox_labels
         (ui (fst (meal_main (fixed_env ''<body>'' ''<plan>'' (Inr repeated_plan))
                     (pressed ''Vegan'') fresh))))"
  by code_simp

subsection \<open>Days without meals, plans without a shopping list\<close>

lemma render_day_without_meals:
  assumes "sub_key ''day'' day_data = Inr day" and "sub_key ''meals'' day_data = Inr meals"
    and "\<not> py_truthy meals"
  shows "render_day env (i, day_data)
           = ([(Tab i, StSubheader (''___'' @ fmt env day @ ''___'')),
               (Tab i, StWrite ''No meals planned for this day.'')], None)"
  using assms by (simp add: render_day_def display_def)

lemma render_day_missing_meals:
  assumes "map_of kvs ''day'' = Some day" and "map_of kvs ''meals'' = None"
  shows "render_day env (i, JObj kvs)
           = ([(Tab i, StSubheader (''___'' @ fmt env day @ ''___''))],
              Some (KeyError (JStr ''meals'')))"
  using assms by (simp add: render_day_def display_def)

lemma render_shopping_list_missing:
  assumes "map_of kvs ''shopping_list'' = None \<or> map_of kvs ''shopping_list'' = Some (JArr [])"
  shows "render_shopping_list (JObj kvs)
           = ([(Main, StHeader (''Shopping List '' @ [CHR 0xF0, CHR 0x9F, CHR 0x9B, CHR 0x92])),
               (Main, StWrite ''No shopping list generated.'')], None)"
  using assms by (auto simp: render_shopping_list_def display_def)

text \<open>
  C8. A day entry whose \<open>meals\<close> array is missing or empty should show the "nothing
  planned" placeholder, and a missing or empty \<open>shopping_list\<close> the "nothing generated"
  one. The lemmas above show the placeholders for an empty \<open>meals\<close> array and for a
  missing or empty shopping list. A missing \<open>meals\<close> entry is different: on a plan
  whose only day has none, the run ends with \<open>KeyError('meals')\<close> after the day's
  sub-header, and shows neither the day's placeholder nor the shopping list section;
  a plan without a \<open>shopping_list\<close> entry, read with \<open>.get\<close>, shows both
  placeholders.
\<close>

theorem missing_meals_entry_raises_key_error:
  "snd (meal_main (fixed_env ''<body>'' ''<plan>'' (Inr plan_without_meals))
          (pressed ''Vegan'') fresh) = Some (KeyError (JStr ''meals''))
   \<and> (Tab 0, StWrite ''No meals planned for this day.'')
        \<notin> set (ui (fst (meal_main (fixed_env ''<body>'' ''<plan>'' (Inr plan_without_meals))
                           (pressed ''Vegan'') fresh)))
   \<and> (Main, StWrite ''No shopping list generated.'')
        \<notin> set (ui (fst (meal_main (fixed_env ''<body>'' ''<plan>'' (Inr plan_without_meals))
                           (pressed ''Vegan'') fresh)))
   \<and> snd (meal_main (fixed_env ''<body>'' ''<plan>'' (Inr plan_without_shopping_list))
          (pressed ''Vegan'') fresh) = None
   \<and> (Tab 0, StWrite ''No meals planned for this day.'')
        \<in> set (ui (fst (meal_main (fixed_env ''<body>'' ''<plan>'' (Inr plan_without_shopping_list))
                           (pressed ''Vegan'') fresh)))
   \<and> (Main, StWrite ''No shopping list generated.'')
        \<in> set (ui (fst (meal_main (fixed_env ''<body>'' ''<plan>'' (Inr plan_without_shopping_list))
                           (pressed ''Vegan'') fresh)))"
  by code_simp

end
